theory Spec2Isabelle
  imports Complex_Main "HOL-Library.Sublist" "HOL-Library.Multiset"
begin

section \<open>JavaScript numbers\<close>

text \<open>
  Every numeric variable of the dashboard component is a JavaScript number. The model
  keeps the three special values of that type apart from the finite ones, because the
  code divides by values that can be zero and parses text that need not be numeric.
  Finite values are exact reals: rounding to 64-bit precision, overflow of a finite
  result and the sign of zero are not represented. No divisor of the component can be
  a negative zero (divisors are differences of timestamps, array lengths and sums
  that passed a \<open>> 0\<close> test).
\<close>

datatype number = Fin real | PInf | NInf | NaN

fun isNaN :: "number \<Rightarrow> bool" where
  "isNaN NaN = True"
| "isNaN _ = False"

fun jneg :: "number \<Rightarrow> number" where
  "jneg (Fin x) = Fin (- x)"
| "jneg PInf = NInf"
| "jneg NInf = PInf"
| "jneg NaN = NaN"

fun jadd :: "number \<Rightarrow> number \<Rightarrow> number" where
  "jadd (Fin x) (Fin y) = Fin (x + y)"
| "jadd NaN _ = NaN"
| "jadd _ NaN = NaN"
| "jadd PInf NInf = NaN"
| "jadd NInf PInf = NaN"
| "jadd PInf _ = PInf"
| "jadd NInf _ = NInf"
| "jadd _ PInf = PInf"
| "jadd _ NInf = NInf"

definition jsub :: "number \<Rightarrow> number \<Rightarrow> number" where
  "jsub a b = jadd a (jneg b)"

text \<open>Sign of a number that is not NaN: \<open>-1\<close>, \<open>0\<close> or \<open>1\<close>.\<close>

fun jsign :: "number \<Rightarrow> int" where
  "jsign (Fin x) = (if x < 0 then -1 else if x = 0 then 0 else 1)"
| "jsign PInf = 1"
| "jsign NInf = -1"
| "jsign NaN = 0"

definition signedInf :: "int \<Rightarrow> number" where
  "signedInf sg = (if sg < 0 then NInf else PInf)"

fun jmul :: "number \<Rightarrow> number \<Rightarrow> number" where
  "jmul (Fin x) (Fin y) = Fin (x * y)"
| "jmul NaN _ = NaN"
| "jmul _ NaN = NaN"
| "jmul a b = (if jsign a = 0 \<or> jsign b = 0 then NaN else signedInf (jsign a * jsign b))"

fun jdiv :: "number \<Rightarrow> number \<Rightarrow> number" where
  "jdiv NaN _ = NaN"
| "jdiv _ NaN = NaN"
| "jdiv (Fin x) (Fin y) =
     (if y = 0 then (if x = 0 then NaN else signedInf (jsign (Fin x))) else Fin (x / y))"
| "jdiv (Fin x) _ = Fin 0"
| "jdiv a (Fin y) = signedInf (jsign a * (if y < 0 then -1 else 1))"
| "jdiv _ _ = NaN"

text \<open>The comparison \<open>a > b\<close>: false as soon as one side is NaN.\<close>

fun jgt :: "number \<Rightarrow> number \<Rightarrow> bool" where
  "jgt NaN _ = False"
| "jgt _ NaN = False"
| "jgt (Fin x) (Fin y) = (x > y)"
| "jgt PInf b = (b \<noteq> PInf)"
| "jgt NInf _ = False"
| "jgt (Fin x) b = (b = NInf)"


text \<open>\<open>Math.max\<close> of two arguments: NaN if either is NaN.\<close>

definition Math_max :: "number \<Rightarrow> number \<Rightarrow> number" where
  "Math_max a b = (if isNaN a \<or> isNaN b then NaN else if jgt b a then b else a)"

section \<open>Strings\<close>

abbreviation dq :: char where
  "dq \<equiv> CHR 0x22"

text \<open>\<open>s.includes(sub)\<close>.\<close>

fun includes_str :: "string \<Rightarrow> string \<Rightarrow> bool" where
  "includes_str [] sub = (sub = [])"
| "includes_str (c # cs) sub = (prefix sub (c # cs) \<or> includes_str cs sub)"

text \<open>\<open>s.split(sep)\<close> for a one-character separator: never empty.\<close>

fun split_str :: "char \<Rightarrow> string \<Rightarrow> string list" where
  "split_str sep [] = [[]]"
| "split_str sep (c # cs) =
     (if c = sep then [] # split_str sep cs
      else (case split_str sep cs of p # ps \<Rightarrow> (c # p) # ps | [] \<Rightarrow> [[c]]))"

text \<open>The lines of a response body, \<open>metrics.split('\n')\<close>.\<close>

definition textLines :: "string \<Rightarrow> string list" where
  "textLines metrics = split_str CHR 0x0A metrics"

text \<open>\<open>s.split(' ').pop()\<close>: the text after the last space.\<close>

definition lastField :: "string \<Rightarrow> string" where
  "lastField line = last (split_str CHR '' '' line)"

definition isWhite :: "char \<Rightarrow> bool" where
  "isWhite c = (c \<in> set [CHR 0x09, CHR 0x0A, CHR 0x0B, CHR 0x0C, CHR 0x0D, CHR 0x20])"

definition isDigit :: "char \<Rightarrow> bool" where
  "isDigit c = (48 \<le> (of_char c :: nat) \<and> (of_char c :: nat) \<le> 57)"

text \<open>Value of a digit in a radix up to 36, as \<open>parseInt\<close> reads it.\<close>

definition digitVal :: "char \<Rightarrow> nat option" where
  "digitVal c =
     (let n = (of_char c :: nat) in
      if 48 \<le> n \<and> n \<le> 57 then Some (n - 48)
      else if 97 \<le> n \<and> n \<le> 122 then Some (n - 87)
      else if 65 \<le> n \<and> n \<le> 90 then Some (n - 55)
      else None)"

definition isRadixDigit :: "nat \<Rightarrow> char \<Rightarrow> bool" where
  "isRadixDigit r c = (case digitVal c of None \<Rightarrow> False | Some d \<Rightarrow> d < r)"

definition radixVal :: "nat \<Rightarrow> string \<Rightarrow> int" where
  "radixVal r ds =
     foldl (\<lambda>acc c. int r * acc + (case digitVal c of None \<Rightarrow> 0 | Some d \<Rightarrow> int d)) 0 ds"

section \<open>Parsing numbers from text\<close>

text \<open>
  The longest prefix of a string that is an unsigned decimal literal
  (\<open>digits\<close>, \<open>digits.digits\<close>, \<open>.digits\<close>, each with an optional exponent), as
  \<open>parseFloat\<close> and \<open>Number\<close> read it, with its value and the text that follows.
\<close>

definition scanExponent :: "string \<Rightarrow> (int \<times> string) option" where
  "scanExponent s =
     (case s of
        [] \<Rightarrow> None
      | e # r \<Rightarrow>
          if e = CHR ''e'' \<or> e = CHR ''E'' then
            (let (neg, r1) = (case r of
                    [] \<Rightarrow> (False, r)
                  | c # r' \<Rightarrow> if c = CHR ''-'' then (True, r')
                             else if c = CHR ''+'' then (False, r') else (False, r));
                 ds = takeWhile isDigit r1
             in if ds = [] then None
                else Some ((if neg then - radixVal 10 ds else radixVal 10 ds),
                           dropWhile isDigit r1))
          else None)"

definition scanDecimal :: "string \<Rightarrow> (real \<times> string) option" where
  "scanDecimal s =
     (let ip = takeWhile isDigit s; r1 = dropWhile isDigit s;
          (fp, r2) = (case r1 of
                [] \<Rightarrow> ([], r1)
              | c # r \<Rightarrow> if c = CHR ''.'' \<and> (ip \<noteq> [] \<or> takeWhile isDigit r \<noteq> [])
                         then (takeWhile isDigit r, dropWhile isDigit r) else ([], r1))
      in if ip = [] \<and> fp = [] then None
         else
           (let m = real_of_int (radixVal 10 ip) + real_of_int (radixVal 10 fp) / 10 ^ length fp
            in case scanExponent r2 of
                 None \<Rightarrow> Some (m, r2)
               | Some (e, r3) \<Rightarrow>
                   Some ((if e < 0 then m / 10 ^ nat (- e) else m * 10 ^ nat e), r3)))"

fun signOf :: "string \<Rightarrow> bool \<times> string" where
  "signOf [] = (False, [])"
| "signOf (c # r) =
     (if c = CHR ''-'' then (True, r) else if c = CHR ''+'' then (False, r) else (False, c # r))"

text \<open>\<open>parseFloat(s)\<close>: leading white space is skipped, what follows the literal is ignored.\<close>

definition parseFloat :: "string \<Rightarrow> number" where
  "parseFloat s =
     (let (neg, u) = signOf (dropWhile isWhite s)
      in if prefix ''Infinity'' u then (if neg then NInf else PInf)
         else (case scanDecimal u of
                 None \<Rightarrow> NaN
               | Some (x, _) \<Rightarrow> Fin (if neg then - x else x)))"

text \<open>
  \<open>parseInt(s)\<close> with no radix: leading white space is skipped, a \<open>0x\<close> prefix selects
  radix 16, and the longest run of digits of the radix is read.
\<close>

definition parseInt :: "string \<Rightarrow> number" where
  "parseInt s =
     (let (neg, u) = signOf (dropWhile isWhite s);
          (r, v) = (if prefix ''0x'' u \<or> prefix ''0X'' u then (16, drop 2 u) else (10, u));
          ds = takeWhile (isRadixDigit r) v
      in if ds = [] then NaN
         else Fin (real_of_int (if neg then - radixVal r ds else radixVal r ds)))"

definition trimWhite :: "string \<Rightarrow> string" where
  "trimWhite s = rev (dropWhile isWhite (rev (dropWhile isWhite s)))"

text \<open>
  \<open>Number(s)\<close>: the whole trimmed string has to be a numeric literal; the empty string
  is 0; \<open>0x\<close>, \<open>0o\<close> and \<open>0b\<close> literals carry no sign.
\<close>

definition radixLiteral :: "nat \<Rightarrow> string \<Rightarrow> number" where
  "radixLiteral r ds = (if ds \<noteq> [] \<and> list_all (isRadixDigit r) ds then Fin (real_of_int (radixVal r ds)) else NaN)"

definition Number :: "string \<Rightarrow> number" where
  "Number s =
     (let t = trimWhite s
      in if t = [] then Fin 0
         else if prefix ''0x'' t \<or> prefix ''0X'' t then radixLiteral 16 (drop 2 t)
         else if prefix ''0o'' t \<or> prefix ''0O'' t then radixLiteral 8 (drop 2 t)
         else if prefix ''0b'' t \<or> prefix ''0B'' t then radixLiteral 2 (drop 2 t)
         else
           (let (neg, u) = signOf t
            in if u = ''Infinity'' then (if neg then NInf else PInf)
               else (case scanDecimal u of
                       None \<Rightarrow> NaN
                     | Some (x, rest) \<Rightarrow>
                         if rest = [] then Fin (if neg then - x else x) else NaN)))"

section \<open>The state of the dashboard component\<close>

record Device =
  device_id :: string
  ip :: string
  url :: string
  device_name :: string

record CoreTimeData =
  idle :: number
  user :: number
  privileged :: number
  interrupt :: number
  dpc :: number
  total :: number
  lastTotal :: number
  lastIdle :: number

record CoreUsage =
  core :: string
  usage :: number
  frequency :: number
  index :: number

text \<open>
  \<open>fetchError\<close> is a message built from one of five templates; the empty string is
  \<open>None\<close>. The value thrown by the request is either an axios error (its \<open>code\<close>, the
  status of its \<open>response\<close> if any, whether it has a \<open>request\<close>, its message) or anything
  else (with a message when it is an \<open>Error\<close>).
\<close>

datatype errorMessage =
  FormatError
| ConnectTimeout string
| ServerError int
| NetworkError
| UnknownError "string option"

datatype thrown =
  AxiosError "string option" "int option" bool string
| OtherError "string option"

text \<open>
  The module-level variables that \<open>fetchMetrics\<close> and the retry wrapper read or write.
  The four scratch arrays \<open>cpuIdleTimes\<close>, \<open>cpuTotalTimes\<close>, \<open>lastCpuIdleTimes\<close> and
  \<open>lastCpuTotalTimes\<close> are written but never read for any displayed value; they are left
  out, and only the failure of their allocation is kept (see \<open>onLogicalProcessor\<close>).
\<close>

record state =
  currentDevice :: "Device option"
  receivedData :: number
  sentData :: number
  currentReceivedBytes :: number
  currentSentBytes :: number
  cpuUsage :: number
  cpuCores :: number
  cpuFreq :: number
  cpuCoreUsages :: "CoreUsage list"
  memoryTotal :: number
  memoryUsed :: number
  memoryFree :: number
  diskTotal :: number
  diskUsed :: number
  diskFree :: number
  receivedSpeed :: number
  sentSpeed :: number
  lastReceivedBytes :: number
  lastSentBytes :: number
  lastTimestamp :: int
  fetchError :: "errorMessage option"
  isLoading :: bool
  retryCount :: nat

definition MAX_RETRIES :: nat where
  "MAX_RETRIES = 3"

definition RETRY_DELAY :: nat where
  "RETRY_DELAY = 2000"

text \<open>The values the variables are declared with; \<open>t0\<close> is \<open>Date.now()\<close> at load time.\<close>

definition initialState :: "Device option \<Rightarrow> int \<Rightarrow> state" where
  "initialState dev t0 =
     \<lparr> currentDevice = dev, receivedData = Fin 0, sentData = Fin 0,
       currentReceivedBytes = Fin 0, currentSentBytes = Fin 0,
       cpuUsage = Fin 0, cpuCores = Fin 0, cpuFreq = Fin 0, cpuCoreUsages = [],
       memoryTotal = Fin 0, memoryUsed = Fin 0, memoryFree = Fin 0,
       diskTotal = Fin 0, diskUsed = Fin 0, diskFree = Fin 0,
       receivedSpeed = Fin 0, sentSpeed = Fin 0,
       lastReceivedBytes = Fin 0, lastSentBytes = Fin 0, lastTimestamp = t0,
       fetchError = None, isLoading = False, retryCount = 0 \<rparr>"

section \<open>Reading one line of the exposition text\<close>

text \<open>\<open>parseFloat(line.split(' ').pop() || '0')\<close>: only the empty field is replaced.\<close>

definition lineValue :: "string \<Rightarrow> number" where
  "lineValue line = parseFloat (let f = lastField line in if f = [] then ''0'' else f)"

definition lineIntValue :: "string \<Rightarrow> number" where
  "lineIntValue line = parseInt (let f = lastField line in if f = [] then ''0'' else f)"

definition GB :: number where
  "GB = Fin (1024 * 1024 * 1024)"

text \<open>
  The regular expression \<open>core="([^"]+)",mode="([^"]+)"\<close>. A group cannot contain a
  quote and must be followed by one, so at a given start there is one way to match;
  \<open>matchCoreMode\<close> takes the leftmost start that matches.
\<close>

definition matchAt :: "string \<Rightarrow> (string \<times> string) option" where
  "matchAt s =
     (if prefix (''core='' @ [dq]) s then
        (let r = drop 6 s; c = takeWhile (\<lambda>x. x \<noteq> dq) r; r2 = dropWhile (\<lambda>x. x \<noteq> dq) r
         in if c \<noteq> [] \<and> prefix ([dq] @ '',mode='' @ [dq]) r2 then
              (let r3 = drop 8 r2; m = takeWhile (\<lambda>x. x \<noteq> dq) r3;
                   r4 = dropWhile (\<lambda>x. x \<noteq> dq) r3
               in if m \<noteq> [] \<and> r4 \<noteq> [] then Some (c, m) else None)
            else None)
      else None)"

fun matchCoreMode :: "string \<Rightarrow> (string \<times> string) option" where
  "matchCoreMode [] = None"
| "matchCoreMode (x # xs) =
     (case matchAt (x # xs) of Some r \<Rightarrow> Some r | None \<Rightarrow> matchCoreMode xs)"

definition newCoreData :: CoreTimeData where
  "newCoreData =
     \<lparr> idle = Fin 0, user = Fin 0, privileged = Fin 0, interrupt = Fin 0, dpc = Fin 0,
       total = Fin 0, lastTotal = Fin 0, lastIdle = Fin 0 \<rparr>"

text \<open>
  \<open>coreData[mode] = value\<close>: a mode that is not a field of the record creates a
  property nothing reads.
\<close>

definition assignMode :: "string \<Rightarrow> number \<Rightarrow> CoreTimeData \<Rightarrow> CoreTimeData" where
  "assignMode mode v d =
     (if mode = ''idle'' then d\<lparr>idle := v\<rparr>
      else if mode = ''user'' then d\<lparr>user := v\<rparr>
      else if mode = ''privileged'' then d\<lparr>privileged := v\<rparr>
      else if mode = ''interrupt'' then d\<lparr>interrupt := v\<rparr>
      else if mode = ''dpc'' then d\<lparr>dpc := v\<rparr>
      else if mode = ''total'' then d\<lparr>total := v\<rparr>
      else if mode = ''lastTotal'' then d\<lparr>lastTotal := v\<rparr>
      else if mode = ''lastIdle'' then d\<lparr>lastIdle := v\<rparr>
      else d)"

definition updateCoreData :: "string \<Rightarrow> number \<Rightarrow> CoreTimeData \<Rightarrow> CoreTimeData" where
  "updateCoreData mode v d =
     (if mode \<noteq> ''total'' then
        (let d1 = (if mode = ''idle'' then d\<lparr>lastIdle := idle d, idle := v\<rparr> else d);
             d2 = assignMode mode v d1;
             newTotal = jadd (jadd (jadd (jadd (idle d2) (user d2)) (privileged d2))
                               (interrupt d2)) (dpc d2)
         in d2\<lparr>lastTotal := total d2, total := newTotal\<rparr>)
      else d)"

text \<open>
  \<open>coreTimes\<close> is a \<open>Map\<close>: its entries are iterated in the order of first insertion.
\<close>

type_synonym coreTimes = "(string \<times> CoreTimeData) list"

definition onCpuTime :: "string \<Rightarrow> coreTimes \<Rightarrow> coreTimes" where
  "onCpuTime line ct =
     (if includes_str line ''windows_cpu_time_total'' then
        (case matchCoreMode line of
           None \<Rightarrow> ct
         | Some (c, mode) \<Rightarrow>
             (let v = lineValue line;
                  ct1 = (if map_of ct c = None then ct @ [(c, newCoreData)] else ct)
              in map (\<lambda>(k, d). if k = c then (k, updateCoreData mode v d) else (k, d)) ct1))
      else ct)"

definition onNetReceived :: "string \<Rightarrow> state \<Rightarrow> state" where
  "onNetReceived line s =
     (if includes_str line ''windows_net_bytes_received_total'' then
        (let v = lineValue line in s\<lparr>currentReceivedBytes := v, receivedData := jdiv v GB\<rparr>)
      else s)"

definition onNetSent :: "string \<Rightarrow> state \<Rightarrow> state" where
  "onNetSent line s =
     (if includes_str line ''windows_net_bytes_sent_total'' then
        (let v = lineValue line in s\<lparr>currentSentBytes := v, sentData := jdiv v GB\<rparr>)
      else s)"

text \<open>
  \<open>new Array(value)\<close> throws a \<open>RangeError\<close> when \<open>value\<close> is not an array length, that is
  above \<open>2^32 - 1\<close> (\<open>parseInt\<close> returns whole numbers, and the test before it keeps the
  positive ones). The length of the old array is at most \<open>2^32 - 1\<close>, so for such a value
  the allocation is always attempted. \<open>cpuCores\<close> is assigned before. Filling a very long
  array of a valid length is a matter of memory and is not part of the model.
\<close>

definition onLogicalProcessor :: "string \<Rightarrow> state \<Rightarrow> (thrown \<times> state) + state" where
  "onLogicalProcessor line s =
     (if includes_str line ''windows_cpu_logical_processor'' then
        (let v = lineIntValue line
         in if jgt v (Fin 0) then
              (if jgt v (Fin 4294967295)
               then Inl (OtherError (Some ''Invalid array length''), s\<lparr>cpuCores := v\<rparr>)
               else Inr (s\<lparr>cpuCores := v\<rparr>))
            else Inr s)
      else Inr s)"

definition onFrequency :: "string \<Rightarrow> state \<Rightarrow> state" where
  "onFrequency line s =
     (if includes_str line ''windows_cpu_core_frequency_mhz'' then
        (let v = lineValue line in if \<not> isNaN v then s\<lparr>cpuFreq := jdiv v (Fin 1000)\<rparr> else s)
      else s)"

definition onMemoryTotal :: "string \<Rightarrow> state \<Rightarrow> state" where
  "onMemoryTotal line s =
     (if includes_str line ''windows_os_visible_memory_bytes'' then
        s\<lparr>memoryTotal := jdiv (lineValue line) GB\<rparr>
      else s)"

definition onMemoryFree :: "string \<Rightarrow> state \<Rightarrow> state" where
  "onMemoryFree line s =
     (if includes_str line ''windows_memory_available_bytes'' then
        (let f = jdiv (lineValue line) GB
         in s\<lparr>memoryFree := f, memoryUsed := Math_max (Fin 0) (jsub (memoryTotal s) f)\<rparr>)
      else s)"

definition diskSizeName :: string where
  "diskSizeName = ''windows_logical_disk_size_bytes{volume='' @ [dq] @ ''C:'' @ [dq] @ ''}''"

definition diskFreeName :: string where
  "diskFreeName = ''windows_logical_disk_free_bytes{volume='' @ [dq] @ ''C:'' @ [dq] @ ''}''"

definition onDiskTotal :: "string \<Rightarrow> state \<Rightarrow> state" where
  "onDiskTotal line s =
     (if includes_str line diskSizeName then s\<lparr>diskTotal := jdiv (lineValue line) GB\<rparr> else s)"

definition onDiskFree :: "string \<Rightarrow> state \<Rightarrow> state" where
  "onDiskFree line s =
     (if includes_str line diskFreeName then
        (let f = jdiv (lineValue line) GB
         in s\<lparr>diskFree := f, diskUsed := Math_max (Fin 0) (jsub (diskTotal s) f)\<rparr>)
      else s)"

text \<open>
  The two blocks on \<open>windows_cpu_processor_mperf_total{\<close> and
  \<open>windows_cpu_processor_performance_total{\<close> take the same steps before they write a
  scratch array. The text between the first \<open>{\<close> and the next \<open>}\<close> is split at its
  commas, the first part that contains \<open>core=\<close> is split at its quotes, and the second
  piece is the core (\<open>undefined\<close> when there is no such part or no quote in it). Then
  \<open>const [processor, thread] = core.split(',').map(Number)\<close> and the index is
  \<open>thread + processor * 2\<close>, where a missing \<open>thread\<close> is \<open>undefined\<close> and makes the sum
  NaN. The blocks run only on lines that contain the name with its brace.
\<close>

definition counterBlockCore :: "string \<Rightarrow> string option" where
  "counterBlockCore line =
     (case split_str CHR ''{'' line of
        _ # inner # _ \<Rightarrow>
          (case split_str CHR ''}'' inner of
             [] \<Rightarrow> None
           | labels # _ \<Rightarrow>
               (case find (\<lambda>p. includes_str p ''core='') (split_str CHR '','' labels) of
                  None \<Rightarrow> None
                | Some p \<Rightarrow> (case split_str dq p of _ # c # _ \<Rightarrow> Some c | _ \<Rightarrow> None)))
      | _ \<Rightarrow> None)"

definition pairIndex :: "string \<Rightarrow> number" where
  "pairIndex c =
     (case map Number (split_str CHR '','' c) of
        processor # thread # _ \<Rightarrow> jadd thread (jmul processor (Fin 2))
      | _ \<Rightarrow> NaN)"

definition counterBlockIndex :: "string \<Rightarrow> number option" where
  "counterBlockIndex line = map_option pairIndex (counterBlockCore line)"

text \<open>
  The body of \<open>lines.forEach\<close>, in the order of the source. The two counter blocks
  write \<open>cpuTotalTimes[index]\<close> and \<open>cpuIdleTimes[index]\<close> only when the core is defined
  and the index is a number that is not negative. The core comes out of a part that
  holds no comma, so \<open>thread\<close> is always missing and the index is never a number
  (lemma \<open>counterBlockIndex_never_a_number\<close> below): the blocks write nothing, and they
  are no step of \<open>processLine\<close>.
\<close>

definition processLine ::
  "string \<Rightarrow> coreTimes \<times> state \<Rightarrow> (thrown \<times> state) + (coreTimes \<times> state)" where
  "processLine line cs =
     (let ct = onCpuTime line (fst cs);
          s1 = onNetSent line (onNetReceived line (snd cs))
      in case onLogicalProcessor line s1 of
           Inl e \<Rightarrow> Inl e
         | Inr s2 \<Rightarrow>
             Inr (ct, onDiskFree line (onDiskTotal line (onMemoryFree line
                        (onMemoryTotal line (onFrequency line s2))))))"

fun processLines ::
  "string list \<Rightarrow> coreTimes \<times> state \<Rightarrow> (thrown \<times> state) + (coreTimes \<times> state)" where
  "processLines [] cs = Inr cs"
| "processLines (l # ls) cs =
     (case processLine l cs of Inl e \<Rightarrow> Inl e | Inr cs' \<Rightarrow> processLines ls cs')"

section \<open>Derived statistics\<close>

text \<open>
  The index of a core in the exposed sequence, the \<open>reduce\<close> over the numbers of the
  label: twice the first component plus all the others.
\<close>

definition coreIndex :: "string \<Rightarrow> number" where
  "coreIndex c =
     (case map Number (split_str CHR '','' c) of
        [] \<Rightarrow> Fin 0
      | x # xs \<Rightarrow> foldl jadd (jadd (Fin 0) (jmul x (Fin 2))) xs)"

definition usagePercent :: "CoreTimeData \<Rightarrow> number" where
  "usagePercent d =
     (let nonIdleTime = jadd (jadd (jadd (user d) (privileged d)) (interrupt d)) (dpc d);
          totalTime = jadd nonIdleTime (idle d)
      in if jgt totalTime (Fin 0) then jmul (jdiv nonIdleTime totalTime) (Fin 100) else Fin 0)"

definition toCoreUsage :: "number \<Rightarrow> string \<times> CoreTimeData \<Rightarrow> CoreUsage" where
  "toCoreUsage freq e =
     \<lparr> core = fst e, usage = usagePercent (snd e), frequency = freq, index = coreIndex (fst e) \<rparr>"

text \<open>
  \<open>.sort((a, b) => a.index - b.index)\<close>. The sort of the language is stable, and a
  comparator result that is NaN counts as 0. For a comparator that orders the elements
  consistently every stable sort returns the same sequence, the one of this insertion
  sort; with a NaN index the order is left to the implementation.
\<close>

definition comesAfter :: "CoreUsage \<Rightarrow> CoreUsage \<Rightarrow> bool" where
  "comesAfter a b = jgt (jsub (index a) (index b)) (Fin 0)"

fun insertByIndex :: "CoreUsage \<Rightarrow> CoreUsage list \<Rightarrow> CoreUsage list" where
  "insertByIndex a [] = [a]"
| "insertByIndex a (b # bs) = (if comesAfter a b then b # insertByIndex a bs else a # b # bs)"

definition sortByIndex :: "CoreUsage list \<Rightarrow> CoreUsage list" where
  "sortByIndex xs = foldr insertByIndex xs []"

definition computeCoreUsages :: "coreTimes \<Rightarrow> number \<Rightarrow> CoreUsage list" where
  "computeCoreUsages ct freq = sortByIndex (map (toCoreUsage freq) ct)"

text \<open>\<open>reduce((sum, core) => sum + core.usage, 0) / cpuCoreUsages.length\<close>.\<close>

definition averageUsage :: "CoreUsage list \<Rightarrow> number" where
  "averageUsage cus =
     jdiv (foldl (\<lambda>sum c. jadd sum (usage c)) (Fin 0) cus) (Fin (real (length cus)))"

definition MiB :: number where
  "MiB = Fin (1024 * 1024)"

definition speedMbps :: "number \<Rightarrow> number \<Rightarrow> number \<Rightarrow> number" where
  "speedMbps current previous timeDiff =
     jmul (jdiv (jdiv (jsub current previous) timeDiff) MiB) (Fin 8)"

text \<open>The network rates and the shift of the counters; \<open>now\<close> is \<open>Date.now()\<close>.\<close>

definition computeNetworkSpeed :: "int \<Rightarrow> state \<Rightarrow> state" where
  "computeNetworkSpeed now s =
     (let timeDiff = Fin (real_of_int (now - lastTimestamp s) / 1000);
          s1 = (if jgt (lastReceivedBytes s) (Fin 0) \<and> jgt (lastSentBytes s) (Fin 0)
                then s\<lparr>receivedSpeed :=
                          speedMbps (currentReceivedBytes s) (lastReceivedBytes s) timeDiff,
                       sentSpeed := speedMbps (currentSentBytes s) (lastSentBytes s) timeDiff\<rparr>
                else s)
      in s1\<lparr>lastReceivedBytes := currentReceivedBytes s1,
            lastSentBytes := currentSentBytes s1,
            lastTimestamp := now\<rparr>)"

definition computeStatistics :: "coreTimes \<Rightarrow> int \<Rightarrow> state \<Rightarrow> state" where
  "computeStatistics ct now s =
     (let cus = computeCoreUsages ct (cpuFreq s)
      in computeNetworkSpeed now (s\<lparr>cpuCoreUsages := cus, cpuUsage := averageUsage cus\<rparr>))"

section \<open>One fetch cycle\<close>

text \<open>
  What the request resolves to: it rejects, or it resolves with a body that is not a
  string, or with the exposition text. Drawing the charts is outside the engine and
  changes none of its variables.
\<close>

datatype response = Rejected thrown | NonString | Text string

definition tryBlock :: "response \<Rightarrow> int \<Rightarrow> state \<Rightarrow> (thrown \<times> state) + state" where
  "tryBlock r now s =
     (case r of
        Rejected e \<Rightarrow> Inl (e, s)
      | NonString \<Rightarrow> Inr (s\<lparr>fetchError := Some FormatError\<rparr>)
      | Text metrics \<Rightarrow>
          (case processLines (textLines metrics) ([], s) of
             Inl e \<Rightarrow> Inl e
           | Inr (ct, s1) \<Rightarrow> Inr (computeStatistics ct now s1)))"

fun classify :: "Device \<Rightarrow> thrown \<Rightarrow> errorMessage" where
  "classify dev (AxiosError code resp req msg) =
     (if code = Some ''ECONNABORTED'' then ConnectTimeout (ip dev)
      else (case resp of
              Some status \<Rightarrow> ServerError status
            | None \<Rightarrow> if req then NetworkError else UnknownError (Some msg)))"
| "classify dev (OtherError msg) = UnknownError msg"

definition catchBlock :: "Device \<Rightarrow> thrown \<Rightarrow> state \<Rightarrow> state" where
  "catchBlock dev e s =
     s\<lparr>fetchError := Some (classify dev e),
       receivedSpeed := Fin 0, sentSpeed := Fin 0,
       memoryUsed := Fin 0, memoryTotal := Fin 0,
       diskUsed := Fin 0, diskTotal := Fin 0\<rparr>"

text \<open>
  \<open>fetchMetrics\<close>. Its \<open>catch\<close> takes every exception of the \<open>try\<close> block, so the result is
  never the left alternative; the type keeps it because the caller has a handler. The
  selected device is taken not to change while the request is in flight.
\<close>

definition fetchMetrics :: "response \<Rightarrow> int \<Rightarrow> state \<Rightarrow> (thrown \<times> state) + state" where
  "fetchMetrics r now s =
     (case currentDevice s of
        None \<Rightarrow> Inr s
      | Some dev \<Rightarrow>
          (let s0 = s\<lparr>isLoading := True, fetchError := None\<rparr>;
               s1 = (case tryBlock r now s0 of
                       Inr s' \<Rightarrow> s'
                     | Inl (e, s') \<Rightarrow> catchBlock dev e s')
           in Inr (s1\<lparr>isLoading := False\<rparr>)))"

section \<open>The retry wrapper\<close>

text \<open>
  \<open>tryFetchMetrics\<close> consumes one outcome of the environment (the response and the clock
  reading of that fetch) per call of \<open>fetchMetrics\<close>, and records what it does: a fetch,
  or a timer of \<open>RETRY_DELAY\<close> milliseconds after which it runs again. It returns the
  outcomes it has not used.
\<close>

datatype event = Fetching | RetryWaiting nat

fun tryFetchMetrics ::
  "(response \<times> int) list \<Rightarrow> state \<Rightarrow> event list \<times> (response \<times> int) list \<times> state" where
  "tryFetchMetrics [] s = ([], [], s)"
| "tryFetchMetrics (o1 # rest) s =
     (if currentDevice s = None then ([], o1 # rest, s)
      else
        (case fetchMetrics (fst o1) (snd o1) s of
           Inr s1 \<Rightarrow> ([Fetching], rest, s1\<lparr>retryCount := 0\<rparr>)
         | Inl (e, s1) \<Rightarrow>
             if retryCount s1 < MAX_RETRIES then
               (case tryFetchMetrics rest (s1\<lparr>retryCount := retryCount s1 + 1\<rparr>) of
                  (ev, rest', s2) \<Rightarrow> (Fetching # RetryWaiting RETRY_DELAY # ev, rest', s2))
             else ([Fetching], rest, s1)))"

definition fetchMetricsWithRetry ::
  "(response \<times> int) list \<Rightarrow> state \<Rightarrow> event list \<times> (response \<times> int) list \<times> state" where
  "fetchMetricsWithRetry outcomes s = tryFetchMetrics outcomes (s\<lparr>retryCount := 0\<rparr>)"

section \<open>Vocabulary of the properties\<close>

text \<open>The last line of a blob that contains a metric name.\<close>

definition lastLineWith :: "string \<Rightarrow> string list \<Rightarrow> string option" where
  "lastLineWith name ls = find (\<lambda>l. includes_str l name) (rev ls)"

text \<open>
  What a blob alone says about a gauge, starting from 0: the value of the last line
  with the name, in GB.
\<close>

definition gaugeGB :: "string \<Rightarrow> string list \<Rightarrow> number" where
  "gaugeGB name ls =
     (case lastLineWith name ls of None \<Rightarrow> Fin 0 | Some l \<Rightarrow> jdiv (lineValue l) GB)"

text \<open>The last frequency line of a blob whose value is a number.\<close>

definition lastFrequencyLine :: "string list \<Rightarrow> string option" where
  "lastFrequencyLine ls =
     find (\<lambda>l. includes_str l ''windows_cpu_core_frequency_mhz'' \<and> \<not> isNaN (lineValue l)) (rev ls)"


text \<open>A device and text lines for concrete runs.\<close>

definition exampleDevice :: Device where
  "exampleDevice =
     \<lparr> device_id = ''1'', ip = ''192.168.1.10'', url = ''/api/metrics'', device_name = ''pc'' \<rparr>"

definition cpuTimeLine :: "string \<Rightarrow> string \<Rightarrow> string \<Rightarrow> string" where
  "cpuTimeLine c mode v =
     ''windows_cpu_time_total{core='' @ [dq] @ c @ [dq] @ '',mode='' @ [dq] @ mode @ [dq]
       @ ''} '' @ v"

definition timeoutError :: thrown where
  "timeoutError = AxiosError (Some ''ECONNABORTED'') None True ''timeout of 10000ms exceeded''"

text \<open>The state a call of \<open>fetchMetrics\<close> leaves, whether it returns or throws.\<close>

fun stateAfter :: "(thrown \<times> state) + state \<Rightarrow> state" where
  "stateAfter (Inr s) = s"
| "stateAfter (Inl (e, s)) = s"


fun isFin :: "number \<Rightarrow> bool" where
  "isFin (Fin _) = True"
| "isFin _ = False"

fun finValue :: "number \<Rightarrow> real" where
  "finValue (Fin x) = x"
| "finValue _ = 0"


text \<open>Blobs and states of the concrete runs.\<close>

definition netBlob :: "string \<Rightarrow> string \<Rightarrow> string" where
  "netBlob received sent =
     ''windows_net_bytes_received_total '' @ received @ [CHR 0x0A]
       @ ''windows_net_bytes_sent_total '' @ sent"

definition gaugeBlob :: string where
  "gaugeBlob =
     ''windows_os_visible_memory_bytes 17179869184'' @ [CHR 0x0A]
       @ ''windows_memory_available_bytes 4294967296'' @ [CHR 0x0A]
       @ diskSizeName @ '' 107374182400'' @ [CHR 0x0A]
       @ diskFreeName @ '' 53687091200'' @ [CHR 0x0A]
       @ netBlob ''1000000000'' ''500000000''"

text \<open>
  The same memory and disk lines in the order of the metric names, as an exporter
  that sorts its metric families writes them.
\<close>

definition sortedGaugeBlob :: string where
  "sortedGaugeBlob =
     diskFreeName @ '' 53687091200'' @ [CHR 0x0A]
       @ diskSizeName @ '' 107374182400'' @ [CHR 0x0A]
       @ ''windows_memory_available_bytes 4294967296'' @ [CHR 0x0A]
       @ ''windows_os_visible_memory_bytes 17179869184''"

text \<open>Three recognized lines whose last field is \<open>abc\<close>.\<close>

definition unparsableBlob :: string where
  "unparsableBlob =
     ''windows_os_visible_memory_bytes abc'' @ [CHR 0x0A]
       @ ''windows_cpu_core_frequency_mhz abc'' @ [CHR 0x0A]
       @ ''windows_net_bytes_received_total abc''"

text \<open>A line of the first counter block.\<close>

definition mperfLine :: "string \<Rightarrow> string \<Rightarrow> string" where
  "mperfLine c v =
     ''windows_cpu_processor_mperf_total{core='' @ [dq] @ c @ [dq] @ ''} '' @ v"

text \<open>One core whose user time reads as \<open>Infinity\<close>.\<close>

definition infiniteUserBlob :: string where
  "infiniteUserBlob =
     cpuTimeLine ''0,0'' ''user'' ''Infinity'' @ [CHR 0x0A] @ cpuTimeLine ''0,0'' ''idle'' ''1''"

definition frequencyBlob :: string where
  "frequencyBlob =
     cpuTimeLine ''0,0'' ''idle'' ''10'' @ [CHR 0x0A]
       @ cpuTimeLine ''0,1'' ''user'' ''30'' @ [CHR 0x0A]
       @ ''windows_cpu_core_frequency_mhz{core='' @ [dq] @ ''0,0'' @ [dq] @ ''} 3200''"

definition lastGoodState :: state where
  "lastGoodState =
     \<lparr> currentDevice = Some exampleDevice, receivedData = Fin 1, sentData = Fin 1,
       currentReceivedBytes = Fin 1073741824, currentSentBytes = Fin 1073741824,
       cpuUsage = Fin 25, cpuCores = Fin 4, cpuFreq = Fin (16 / 5),
       cpuCoreUsages =
         [\<lparr> core = ''0,0'', usage = Fin 25, frequency = Fin (16 / 5), index = Fin 0 \<rparr>],
       memoryTotal = Fin 16, memoryUsed = Fin 12, memoryFree = Fin 4,
       diskTotal = Fin 100, diskUsed = Fin 50, diskFree = Fin 50,
       receivedSpeed = Fin 95, sentSpeed = Fin 10,
       lastReceivedBytes = Fin 1073741824, lastSentBytes = Fin 1073741824,
       lastTimestamp = 2000, fetchError = None, isLoading = False, retryCount = 0 \<rparr>"

definition fourFailures :: "(response \<times> int) list" where
  "fourFailures =
     [(Rejected timeoutError, 12000), (Rejected timeoutError, 24000),
      (Rejected timeoutError, 36000), (Rejected timeoutError, 48000)]"

section \<open>Arithmetic of the number model\<close>

lemma percent_range: "0 \<le> q \<Longrightarrow> q \<le> 1 \<Longrightarrow> 0 \<le> q * 100 \<and> q * 100 \<le> (100::real)"
  by simp

section \<open>Per-core usage\<close>

lemma usagePercent_Fin:
  assumes "idle d = Fin i" "user d = Fin u" "privileged d = Fin p"
    "interrupt d = Fin n" "dpc d = Fin c"
  shows "usagePercent d =
           Fin (if u + p + n + c + i > 0 then (u + p + n + c) / (u + p + n + c + i) * 100 else 0)"
  using assms by (simp add: usagePercent_def Let_def)

text \<open>
  C6 as stated fails: \<open>Infinity\<close> is a non-negative input. With a user time of
  \<open>Infinity\<close> and an idle time of 1 the total is \<open>Infinity\<close>, the test \<open>totalTime > 0\<close>
  passes, and the usage is \<open>Infinity / Infinity * 100\<close>, which is NaN and lies in no
  interval. The text \<open>Infinity\<close> reaches the accumulator through \<open>parseFloat\<close>.
\<close>

theorem usage_infinite_counterexample:
  "usagePercent \<lparr> idle = Fin 1, user = PInf, privileged = Fin 0, interrupt = Fin 0,
      dpc = Fin 0, total = PInf, lastTotal = Fin 0, lastIdle = Fin 0 \<rparr> = NaN
   \<and> map usage (cpuCoreUsages (stateAfter (fetchMetrics (Text infiniteUserBlob) 2000
        (initialState (Some exampleDevice) 0)))) = [NaN]"
  by code_simp

text \<open>
  C6, amended. For a core whose five time components are finite and non-negative, with
  a sum of at most \<open>10^308\<close> (so that no sum leaves the finite range of the number
  type), the usage is \<open>nonIdle / (nonIdle + idle) * 100\<close> with
  \<open>nonIdle = user + privileged + interrupt + dpc\<close>, it lies between 0 and 100, and it
  is 0 when \<open>nonIdle + idle\<close> is 0.
\<close>

theorem usagePercent_bounds:
  assumes "idle d = Fin i" "user d = Fin u" "privileged d = Fin p"
    "interrupt d = Fin n" "dpc d = Fin c"
    and "0 \<le> i" "0 \<le> u" "0 \<le> p" "0 \<le> n" "0 \<le> c"
    and "u + p + n + c + i \<le> 10 ^ 308"
  shows "\<exists>x. usagePercent d = Fin x \<and> 0 \<le> x \<and> x \<le> 100
           \<and> (u + p + n + c + i = 0 \<longrightarrow> x = 0)
           \<and> (u + p + n + c + i \<noteq> 0 \<longrightarrow> x = (u + p + n + c) / (u + p + n + c + i) * 100)"
proof -
  let ?a = "u + p + n + c"
  have a: "0 \<le> ?a" using assms by simp
  show ?thesis
  proof (cases "?a + i > 0")
    case True
    have le1: "?a / (?a + i) \<le> 1" using True a assms(6) by (simp add: divide_le_eq)
    have ge0: "0 \<le> ?a / (?a + i)" using True a by simp
    have r1: "?a / (?a + i) * 100 \<le> 100"
      using percent_range[OF ge0 le1] by (rule conjunct2)
    have r0: "0 \<le> ?a / (?a + i) * 100"
      using percent_range[OF ge0 le1] by (rule conjunct1)
    have ne: "?a + i \<noteq> 0" using True by linarith
    have eq: "usagePercent d = Fin (?a / (?a + i) * 100)"
      using usagePercent_Fin[OF assms(1-5)] True by (simp only: if_True)
    from eq r0 r1 ne show ?thesis by blast
  next
    case False
    then have z: "?a + i = 0" using a assms(6) by linarith
    have eq: "usagePercent d = Fin 0"
      using usagePercent_Fin[OF assms(1-5)] False by (simp only: if_False)
    from eq z show ?thesis by auto
  qed
qed

theorem usagePercent_bounds_witness:
  "\<exists>x. usagePercent \<lparr> idle = Fin 10, user = Fin 20, privileged = Fin 5, interrupt = Fin 3,
          dpc = Fin 2, total = Fin 40, lastTotal = Fin 0, lastIdle = Fin 0 \<rparr> = Fin x
       \<and> 0 \<le> x \<and> x \<le> 100 \<and> x = 75"
proof -
  have b: "(20::real) + 5 + 3 + 2 + 10 \<le> 10 ^ 308" by simp
  from usagePercent_bounds[of "\<lparr> idle = Fin 10, user = Fin 20, privileged = Fin 5,
          interrupt = Fin 3, dpc = Fin 2, total = Fin 40, lastTotal = Fin 0,
          lastIdle = Fin 0 \<rparr>" 10 20 5 3 2] b
  show ?thesis by simp
qed

section \<open>Aggregate usage\<close>

lemma foldl_usage_Fin:
  "\<forall>c \<in> set cus. isFin (usage c) \<Longrightarrow>
     foldl (\<lambda>sum c. jadd sum (usage c)) (Fin a) cus
       = Fin (a + sum_list (map (\<lambda>c. finValue (usage c)) cus))"
proof (induction cus arbitrary: a)
  case Nil
  then show ?case by simp
next
  case (Cons c cus)
  from Cons.prems obtain r where r: "usage c = Fin r" by (cases "usage c") auto
  show ?case using Cons.IH[of "a + r"] Cons.prems r by (simp add: add.assoc)
qed

text \<open>With at least one core and finite usages the aggregate is the arithmetic mean.\<close>

lemma averageUsage_mean:
  assumes "cus \<noteq> []" and "\<forall>c \<in> set cus. isFin (usage c)"
  shows "averageUsage cus
           = Fin (sum_list (map (\<lambda>c. finValue (usage c)) cus) / real (length cus))"
  using assms foldl_usage_Fin[OF assms(2), of 0] by (simp add: averageUsage_def)

text \<open>
  C7. The aggregate is the sum of the per-core usages divided by their number, with no
  test of that number. A body without any CPU time line leaves the set of cores empty,
  and the division is \<open>0 / 0\<close>: the aggregate is NaN, not 0.
\<close>

theorem average_no_cores_NaN:
  "averageUsage [] = NaN
   \<and> cpuCoreUsages (stateAfter (fetchMetrics (Text gaugeBlob) 2000
        (initialState (Some exampleDevice) 0))) = []
   \<and> cpuUsage (stateAfter (fetchMetrics (Text gaugeBlob) 2000
        (initialState (Some exampleDevice) 0))) = NaN"
  by code_simp

section \<open>Network throughput\<close>

lemma neg_scale: "(x::real) < 0 \<Longrightarrow> x / (1024 * 1024) * 8 < 0"
  by simp

lemma speedMbps_Fin:
  "t \<noteq> 0 \<Longrightarrow> speedMbps (Fin c) (Fin p) (Fin t) = Fin (((c - p) / t) / (1024 * 1024) * 8)"
  by (simp add: speedMbps_def jsub_def MiB_def)

lemma receivedSpeed_gated:
  assumes "lastReceivedBytes s = Fin p" "lastSentBytes s = Fin q" "0 < p" "0 < q"
    and "currentReceivedBytes s = Fin c" and "lastTimestamp s < now"
  shows "receivedSpeed (computeNetworkSpeed now s) =
           Fin (((c - p) / (real_of_int (now - lastTimestamp s) / 1000)) / (1024 * 1024) * 8)"
  using assms by (simp add: computeNetworkSpeed_def Let_def speedMbps_Fin)

text \<open>
  C1 as stated fails: two polls 2 s apart, both counters at 1000 bytes in the first, the
  received counter back at 500 in the second. The receive speed of the second cycle is
  \<open>(500 - 1000) / 2 / 1048576 * 8\<close>, a negative number, not 0.
\<close>

theorem counter_reset_counterexample:
  "receivedSpeed (stateAfter (fetchMetrics (Text (netBlob ''500'' ''1000'')) 3000
      (stateAfter (fetchMetrics (Text (netBlob ''1000'' ''1000'')) 1000
         (initialState (Some exampleDevice) 0))))) = Fin (- (125 / 65536))"
  by code_simp

text \<open>
  C1, amended. When the previous received and sent counters are both positive, time has
  passed since the previous cycle, and the received counter is lower than before, the
  receive speed of the cycle is \<open>((current - previous) / seconds) / (1024 * 1024) * 8\<close>,
  which is negative: the difference is not clamped.
\<close>

theorem counter_reset_speed_negative:
  assumes "lastReceivedBytes s = Fin p" "lastSentBytes s = Fin q" "0 < p" "0 < q"
    and "currentReceivedBytes s = Fin c" and "c < p" and "lastTimestamp s < now"
  shows "\<exists>v. receivedSpeed (computeNetworkSpeed now s) = Fin v
           \<and> v = ((c - p) / (real_of_int (now - lastTimestamp s) / 1000)) / (1024 * 1024) * 8
           \<and> v < 0"
proof -
  let ?t = "real_of_int (now - lastTimestamp s) / 1000"
  have t: "0 < ?t" using assms(7) by simp
  have "c - p < 0" using assms(6) by simp
  then have "(c - p) / ?t < 0" using t by (rule divide_neg_pos)
  then have "((c - p) / ?t) / (1024 * 1024) * 8 < 0" by (rule neg_scale)
  then show ?thesis using receivedSpeed_gated[OF assms(1-5) assms(7)] by blast
qed

theorem counter_reset_speed_negative_witness:
  "\<exists>v. receivedSpeed (computeNetworkSpeed 4000
          (lastGoodState\<lparr>currentReceivedBytes := Fin 1073741324\<rparr>)) = Fin v
       \<and> v = - (125 / 65536) \<and> v < 0"
  using counter_reset_speed_negative[of "lastGoodState\<lparr>currentReceivedBytes := Fin 1073741324\<rparr>"
      1073741824 1073741824 1073741324 4000]
  by (simp add: lastGoodState_def)

text \<open>
  C5 as stated fails: the first body reports 1,000,000,000 received bytes and no sent
  counter, the second 1,031,250,000 received bytes 2.5 s later. The previous and the
  current received counts are known, yet no speed is computed: it stays 0, while the
  formula gives \<open>390625 / 4096\<close> (about 95.37).
\<close>

theorem throughput_gate_counterexample:
  "lastReceivedBytes (stateAfter (fetchMetrics
        (Text ''windows_net_bytes_received_total 1000000000'') 0
        (initialState (Some exampleDevice) 0))) = Fin 1000000000
   \<and> receivedSpeed (stateAfter (fetchMetrics
        (Text ''windows_net_bytes_received_total 1031250000'') 2500
        (stateAfter (fetchMetrics (Text ''windows_net_bytes_received_total 1000000000'') 0
           (initialState (Some exampleDevice) 0))))) = Fin 0
   \<and> speedMbps (Fin 1031250000) (Fin 1000000000) (Fin (5 / 2)) = Fin (390625 / 4096)"
  by code_simp

text \<open>
  C5, amended. When the previous received counter and the previous sent counter are
  both positive and time has passed since the previous cycle, the receive speed is
  \<open>((current - previous) / seconds) / (1024 * 1024) * 8\<close>; from 1,000,000,000 to
  1,031,250,000 bytes over 2.5 s that is within 0.01 of 95.37.
\<close>

theorem throughput_formula:
  assumes "lastReceivedBytes s = Fin p" "lastSentBytes s = Fin q" "0 < p" "0 < q"
    and "currentReceivedBytes s = Fin c" and "lastTimestamp s < now"
  shows "receivedSpeed (computeNetworkSpeed now s) =
           Fin (((c - p) / (real_of_int (now - lastTimestamp s) / 1000)) / (1024 * 1024) * 8)
         \<and> (\<exists>v. speedMbps (Fin 1031250000) (Fin 1000000000) (Fin (5 / 2)) = Fin v
                \<and> \<bar>v - 95.37\<bar> < 0.01)"
proof -
  have "speedMbps (Fin 1031250000) (Fin 1000000000) (Fin (5 / 2)) = Fin (390625 / 4096)"
    by (simp add: speedMbps_Fin)
  moreover have "\<bar>390625 / 4096 - 95.37\<bar> < (0.01::real)" by simp
  ultimately show ?thesis using receivedSpeed_gated[OF assms] by blast
qed

theorem throughput_formula_witness:
  "receivedSpeed (computeNetworkSpeed 4500
      (lastGoodState\<lparr>lastReceivedBytes := Fin 1000000000,
                      currentReceivedBytes := Fin 1031250000\<rparr>)) = Fin (390625 / 4096)"
  using throughput_formula[of "lastGoodState\<lparr>lastReceivedBytes := Fin 1000000000,
      currentReceivedBytes := Fin 1031250000\<rparr>" 1000000000 1073741824 1031250000 4500]
  by (simp add: lastGoodState_def)

text \<open>The same figures through two whole fetch cycles, with a sent counter present.\<close>

lemma throughput_end_to_end:
  "receivedSpeed (stateAfter (fetchMetrics (Text (netBlob ''1031250000'' ''1'')) 2500
      (stateAfter (fetchMetrics (Text (netBlob ''1000000000'' ''1'')) 0
         (initialState (Some exampleDevice) 0))))) = Fin (390625 / 4096)"
  by code_simp

section \<open>The effect of one line\<close>

lemma onNetReceived_frame [simp]:
  "memoryTotal (onNetReceived l s) = memoryTotal s"
  "memoryFree (onNetReceived l s) = memoryFree s"
  "memoryUsed (onNetReceived l s) = memoryUsed s"
  "diskTotal (onNetReceived l s) = diskTotal s"
  "diskFree (onNetReceived l s) = diskFree s"
  "diskUsed (onNetReceived l s) = diskUsed s"
  "cpuFreq (onNetReceived l s) = cpuFreq s"
  "fetchError (onNetReceived l s) = fetchError s"
  "receivedSpeed (onNetReceived l s) = receivedSpeed s"
  "sentSpeed (onNetReceived l s) = sentSpeed s"
  "lastReceivedBytes (onNetReceived l s) = lastReceivedBytes s"
  "lastSentBytes (onNetReceived l s) = lastSentBytes s"
  "lastTimestamp (onNetReceived l s) = lastTimestamp s"
  "currentSentBytes (onNetReceived l s) = currentSentBytes s"
  by (simp_all add: onNetReceived_def Let_def)

lemma onNetSent_frame [simp]:
  "memoryTotal (onNetSent l s) = memoryTotal s"
  "memoryFree (onNetSent l s) = memoryFree s"
  "memoryUsed (onNetSent l s) = memoryUsed s"
  "diskTotal (onNetSent l s) = diskTotal s"
  "diskFree (onNetSent l s) = diskFree s"
  "diskUsed (onNetSent l s) = diskUsed s"
  "cpuFreq (onNetSent l s) = cpuFreq s"
  "fetchError (onNetSent l s) = fetchError s"
  "receivedSpeed (onNetSent l s) = receivedSpeed s"
  "sentSpeed (onNetSent l s) = sentSpeed s"
  "lastReceivedBytes (onNetSent l s) = lastReceivedBytes s"
  "lastSentBytes (onNetSent l s) = lastSentBytes s"
  "lastTimestamp (onNetSent l s) = lastTimestamp s"
  "currentReceivedBytes (onNetSent l s) = currentReceivedBytes s"
  by (simp_all add: onNetSent_def Let_def)

lemma onFrequency_frame [simp]:
  "memoryTotal (onFrequency l s) = memoryTotal s"
  "memoryFree (onFrequency l s) = memoryFree s"
  "memoryUsed (onFrequency l s) = memoryUsed s"
  "diskTotal (onFrequency l s) = diskTotal s"
  "diskFree (onFrequency l s) = diskFree s"
  "diskUsed (onFrequency l s) = diskUsed s"
  "fetchError (onFrequency l s) = fetchError s"
  "receivedSpeed (onFrequency l s) = receivedSpeed s"
  "sentSpeed (onFrequency l s) = sentSpeed s"
  "lastReceivedBytes (onFrequency l s) = lastReceivedBytes s"
  "lastSentBytes (onFrequency l s) = lastSentBytes s"
  "lastTimestamp (onFrequency l s) = lastTimestamp s"
  "currentReceivedBytes (onFrequency l s) = currentReceivedBytes s"
  "currentSentBytes (onFrequency l s) = currentSentBytes s"
  by (simp_all add: onFrequency_def Let_def)

lemma onMemoryTotal_frame [simp]:
  "memoryFree (onMemoryTotal l s) = memoryFree s"
  "memoryUsed (onMemoryTotal l s) = memoryUsed s"
  "diskTotal (onMemoryTotal l s) = diskTotal s"
  "diskFree (onMemoryTotal l s) = diskFree s"
  "diskUsed (onMemoryTotal l s) = diskUsed s"
  "cpuFreq (onMemoryTotal l s) = cpuFreq s"
  "fetchError (onMemoryTotal l s) = fetchError s"
  "receivedSpeed (onMemoryTotal l s) = receivedSpeed s"
  "sentSpeed (onMemoryTotal l s) = sentSpeed s"
  "lastReceivedBytes (onMemoryTotal l s) = lastReceivedBytes s"
  "lastSentBytes (onMemoryTotal l s) = lastSentBytes s"
  "lastTimestamp (onMemoryTotal l s) = lastTimestamp s"
  "currentReceivedBytes (onMemoryTotal l s) = currentReceivedBytes s"
  "currentSentBytes (onMemoryTotal l s) = currentSentBytes s"
  by (simp_all add: onMemoryTotal_def Let_def)

lemma onMemoryFree_frame [simp]:
  "memoryTotal (onMemoryFree l s) = memoryTotal s"
  "diskTotal (onMemoryFree l s) = diskTotal s"
  "diskFree (onMemoryFree l s) = diskFree s"
  "diskUsed (onMemoryFree l s) = diskUsed s"
  "cpuFreq (onMemoryFree l s) = cpuFreq s"
  "fetchError (onMemoryFree l s) = fetchError s"
  "receivedSpeed (onMemoryFree l s) = receivedSpeed s"
  "sentSpeed (onMemoryFree l s) = sentSpeed s"
  "lastReceivedBytes (onMemoryFree l s) = lastReceivedBytes s"
  "lastSentBytes (onMemoryFree l s) = lastSentBytes s"
  "lastTimestamp (onMemoryFree l s) = lastTimestamp s"
  "currentReceivedBytes (onMemoryFree l s) = currentReceivedBytes s"
  "currentSentBytes (onMemoryFree l s) = currentSentBytes s"
  by (simp_all add: onMemoryFree_def Let_def)

lemma onDiskTotal_frame [simp]:
  "memoryTotal (onDiskTotal l s) = memoryTotal s"
  "memoryFree (onDiskTotal l s) = memoryFree s"
  "memoryUsed (onDiskTotal l s) = memoryUsed s"
  "diskFree (onDiskTotal l s) = diskFree s"
  "diskUsed (onDiskTotal l s) = diskUsed s"
  "cpuFreq (onDiskTotal l s) = cpuFreq s"
  "fetchError (onDiskTotal l s) = fetchError s"
  "receivedSpeed (onDiskTotal l s) = receivedSpeed s"
  "sentSpeed (onDiskTotal l s) = sentSpeed s"
  "lastReceivedBytes (onDiskTotal l s) = lastReceivedBytes s"
  "lastSentBytes (onDiskTotal l s) = lastSentBytes s"
  "lastTimestamp (onDiskTotal l s) = lastTimestamp s"
  "currentReceivedBytes (onDiskTotal l s) = currentReceivedBytes s"
  "currentSentBytes (onDiskTotal l s) = currentSentBytes s"
  by (simp_all add: onDiskTotal_def Let_def)

lemma onDiskFree_frame [simp]:
  "memoryTotal (onDiskFree l s) = memoryTotal s"
  "memoryFree (onDiskFree l s) = memoryFree s"
  "memoryUsed (onDiskFree l s) = memoryUsed s"
  "diskTotal (onDiskFree l s) = diskTotal s"
  "cpuFreq (onDiskFree l s) = cpuFreq s"
  "fetchError (onDiskFree l s) = fetchError s"
  "receivedSpeed (onDiskFree l s) = receivedSpeed s"
  "sentSpeed (onDiskFree l s) = sentSpeed s"
  "lastReceivedBytes (onDiskFree l s) = lastReceivedBytes s"
  "lastSentBytes (onDiskFree l s) = lastSentBytes s"
  "lastTimestamp (onDiskFree l s) = lastTimestamp s"
  "currentReceivedBytes (onDiskFree l s) = currentReceivedBytes s"
  "currentSentBytes (onDiskFree l s) = currentSentBytes s"
  by (simp_all add: onDiskFree_def Let_def)

lemma onLogicalProcessor_frame:
  assumes "onLogicalProcessor l s = Inr s' \<or> onLogicalProcessor l s = Inl (e, s')"
  shows "memoryTotal s' = memoryTotal s \<and>
     memoryFree s' = memoryFree s \<and>
     memoryUsed s' = memoryUsed s \<and>
     diskTotal s' = diskTotal s \<and>
     diskFree s' = diskFree s \<and>
     diskUsed s' = diskUsed s \<and>
     cpuFreq s' = cpuFreq s \<and>
     fetchError s' = fetchError s \<and>
     receivedSpeed s' = receivedSpeed s \<and>
     sentSpeed s' = sentSpeed s \<and>
     lastReceivedBytes s' = lastReceivedBytes s \<and>
     lastSentBytes s' = lastSentBytes s \<and>
     lastTimestamp s' = lastTimestamp s \<and>
     currentReceivedBytes s' = currentReceivedBytes s \<and>
     currentSentBytes s' = currentSentBytes s"
  using assms by (auto simp add: onLogicalProcessor_def Let_def split: if_splits)


lemma onFrequency_cpuFreq [simp]:
  "cpuFreq (onFrequency l s) =
     (if includes_str l ''windows_cpu_core_frequency_mhz'' \<and> \<not> isNaN (lineValue l)
      then jdiv (lineValue l) (Fin 1000) else cpuFreq s)"
  by (simp add: onFrequency_def Let_def)

lemma onMemoryTotal_memoryTotal [simp]:
  "memoryTotal (onMemoryTotal l s) =
     (if includes_str l ''windows_os_visible_memory_bytes'' then jdiv (lineValue l) GB
      else memoryTotal s)"
  by (simp add: onMemoryTotal_def)

lemma onMemoryFree_memoryFree [simp]:
  "memoryFree (onMemoryFree l s) =
     (if includes_str l ''windows_memory_available_bytes'' then jdiv (lineValue l) GB
      else memoryFree s)"
  by (simp add: onMemoryFree_def Let_def)

lemma onMemoryFree_memoryUsed [simp]:
  "memoryUsed (onMemoryFree l s) =
     (if includes_str l ''windows_memory_available_bytes''
      then Math_max (Fin 0) (jsub (memoryTotal s) (jdiv (lineValue l) GB))
      else memoryUsed s)"
  by (simp add: onMemoryFree_def Let_def)

lemma onDiskTotal_diskTotal [simp]:
  "diskTotal (onDiskTotal l s) =
     (if includes_str l diskSizeName then jdiv (lineValue l) GB else diskTotal s)"
  by (simp add: onDiskTotal_def)

lemma onDiskFree_diskFree [simp]:
  "diskFree (onDiskFree l s) =
     (if includes_str l diskFreeName then jdiv (lineValue l) GB else diskFree s)"
  by (simp add: onDiskFree_def Let_def)

lemma onDiskFree_diskUsed [simp]:
  "diskUsed (onDiskFree l s) =
     (if includes_str l diskFreeName
      then Math_max (Fin 0) (jsub (diskTotal s) (jdiv (lineValue l) GB))
      else diskUsed s)"
  by (simp add: onDiskFree_def Let_def)

lemma processLine_InrE:
  assumes "processLine l (ct, s) = Inr (ct', s')"
  obtains s2 where "onLogicalProcessor l (onNetSent l (onNetReceived l s)) = Inr s2"
    and "s' = onDiskFree l (onDiskTotal l (onMemoryFree l (onMemoryTotal l (onFrequency l s2))))"
    and "ct' = onCpuTime l ct"
  using assms by (auto simp add: processLine_def Let_def split: sum.splits)

lemma processLine_fields:
  assumes "processLine l (ct, s) = Inr (ct', s')"
  shows "memoryTotal s' = (if includes_str l ''windows_os_visible_memory_bytes''
                           then jdiv (lineValue l) GB else memoryTotal s)"
    and "memoryFree s' = (if includes_str l ''windows_memory_available_bytes''
                          then jdiv (lineValue l) GB else memoryFree s)"
    and "memoryUsed s' = (if includes_str l ''windows_memory_available_bytes''
                          then Math_max (Fin 0) (jsub (memoryTotal s') (jdiv (lineValue l) GB))
                          else memoryUsed s)"
    and "diskTotal s' = (if includes_str l diskSizeName then jdiv (lineValue l) GB
                         else diskTotal s)"
    and "diskFree s' = (if includes_str l diskFreeName then jdiv (lineValue l) GB
                        else diskFree s)"
    and "diskUsed s' = (if includes_str l diskFreeName
                        then Math_max (Fin 0) (jsub (diskTotal s') (jdiv (lineValue l) GB))
                        else diskUsed s)"
    and "cpuFreq s' = (if includes_str l ''windows_cpu_core_frequency_mhz'' \<and> \<not> isNaN (lineValue l)
                       then jdiv (lineValue l) (Fin 1000) else cpuFreq s)"
    and "fetchError s' = fetchError s"
    and "receivedSpeed s' = receivedSpeed s" and "sentSpeed s' = sentSpeed s"
    and "lastReceivedBytes s' = lastReceivedBytes s" and "lastSentBytes s' = lastSentBytes s"
    and "lastTimestamp s' = lastTimestamp s"
proof -
  from assms obtain s2 where lp: "onLogicalProcessor l (onNetSent l (onNetReceived l s)) = Inr s2"
    and s': "s' = onDiskFree l (onDiskTotal l (onMemoryFree l (onMemoryTotal l (onFrequency l s2))))"
    by (rule processLine_InrE)
  note fr = onLogicalProcessor_frame[OF disjI1[OF lp]]
  show "memoryTotal s' = (if includes_str l ''windows_os_visible_memory_bytes''
                           then jdiv (lineValue l) GB else memoryTotal s)"
    using fr by (simp add: s')
  show "memoryFree s' = (if includes_str l ''windows_memory_available_bytes''
                          then jdiv (lineValue l) GB else memoryFree s)"
    using fr by (simp add: s')
  show "memoryUsed s' = (if includes_str l ''windows_memory_available_bytes''
                          then Math_max (Fin 0) (jsub (memoryTotal s') (jdiv (lineValue l) GB))
                          else memoryUsed s)"
    using fr by (simp add: s')
  show "diskTotal s' = (if includes_str l diskSizeName then jdiv (lineValue l) GB
                         else diskTotal s)"
    using fr by (simp add: s')
  show "diskFree s' = (if includes_str l diskFreeName then jdiv (lineValue l) GB
                        else diskFree s)"
    using fr by (simp add: s')
  show "diskUsed s' = (if includes_str l diskFreeName
                        then Math_max (Fin 0) (jsub (diskTotal s') (jdiv (lineValue l) GB))
                        else diskUsed s)"
    using fr by (simp add: s')
  show "cpuFreq s' = (if includes_str l ''windows_cpu_core_frequency_mhz'' \<and> \<not> isNaN (lineValue l)
                       then jdiv (lineValue l) (Fin 1000) else cpuFreq s)"
    using fr by (simp add: s')
  show "fetchError s' = fetchError s" using fr by (simp add: s')
  show "receivedSpeed s' = receivedSpeed s" using fr by (simp add: s')
  show "sentSpeed s' = sentSpeed s" using fr by (simp add: s')
  show "lastReceivedBytes s' = lastReceivedBytes s" using fr by (simp add: s')
  show "lastSentBytes s' = lastSentBytes s" using fr by (simp add: s')
  show "lastTimestamp s' = lastTimestamp s" using fr by (simp add: s')
qed


section \<open>The effect of a whole blob\<close>

lemma processLines_snoc:
  "processLines (xs @ [x]) cs =
     (case processLines xs cs of Inl e \<Rightarrow> Inl e | Inr cs' \<Rightarrow> processLine x cs')"
  by (induction xs arbitrary: cs) (auto split: sum.splits)

lemma processLines_snoc_InrE:
  assumes "processLines (xs @ [x]) (ct, s) = Inr (ct', s')"
  obtains ct1 s1 where "processLines xs (ct, s) = Inr (ct1, s1)"
    and "processLine x (ct1, s1) = Inr (ct', s')"
  using assms by (auto simp add: processLines_snoc split: sum.splits)

lemma processLines_last_value:
  assumes step: "\<And>l ct s ct' s'. processLine l (ct, s) = Inr (ct', s')
                   \<Longrightarrow> g s' = (if P l then v l else g s)"
  shows "processLines ls (ct, s) = Inr (ct', s')
           \<Longrightarrow> g s' = (case find P (rev ls) of None \<Rightarrow> g s | Some l \<Rightarrow> v l)"
proof (induction ls arbitrary: ct' s' rule: rev_induct)
  case Nil
  then show ?case by simp
next
  case (snoc x xs)
  from snoc.prems obtain ct1 s1 where xs: "processLines xs (ct, s) = Inr (ct1, s1)"
    and x: "processLine x (ct1, s1) = Inr (ct', s')"
    by (rule processLines_snoc_InrE)
  show ?case using step[OF x] snoc.IH[OF xs] by simp
qed

lemma processLines_unchanged:
  assumes step: "\<And>l ct s ct' s'. processLine l (ct, s) = Inr (ct', s') \<Longrightarrow> g s' = g s"
  shows "processLines ls (ct, s) = Inr (ct', s') \<Longrightarrow> g s' = g s"
proof (induction ls arbitrary: ct s)
  case Nil
  then show ?case by simp
next
  case (Cons l ls)
  then show ?case by (auto split: sum.splits dest: step)
qed

lemma set_insertByIndex: "set (insertByIndex a xs) = insert a (set xs)"
  by (induction xs) auto

lemma set_sortByIndex: "set (sortByIndex xs) = set xs"
  by (induction xs) (simp_all add: sortByIndex_def set_insertByIndex)

lemma computeNetworkSpeed_frame [simp]:
  "memoryTotal (computeNetworkSpeed now s) = memoryTotal s"
  "memoryFree (computeNetworkSpeed now s) = memoryFree s"
  "memoryUsed (computeNetworkSpeed now s) = memoryUsed s"
  "diskTotal (computeNetworkSpeed now s) = diskTotal s"
  "diskFree (computeNetworkSpeed now s) = diskFree s"
  "diskUsed (computeNetworkSpeed now s) = diskUsed s"
  "cpuFreq (computeNetworkSpeed now s) = cpuFreq s"
  "cpuUsage (computeNetworkSpeed now s) = cpuUsage s"
  "cpuCoreUsages (computeNetworkSpeed now s) = cpuCoreUsages s"
  "fetchError (computeNetworkSpeed now s) = fetchError s"
  by (simp_all add: computeNetworkSpeed_def Let_def)

lemma computeNetworkSpeed_bootstrap:
  "lastReceivedBytes s = Fin 0 \<or> lastSentBytes s = Fin 0
     \<Longrightarrow> receivedSpeed (computeNetworkSpeed now s) = receivedSpeed s
         \<and> sentSpeed (computeNetworkSpeed now s) = sentSpeed s"
  by (auto simp add: computeNetworkSpeed_def Let_def)

lemma computeStatistics_frame [simp]:
  "memoryTotal (computeStatistics ct now s) = memoryTotal s"
  "memoryFree (computeStatistics ct now s) = memoryFree s"
  "memoryUsed (computeStatistics ct now s) = memoryUsed s"
  "diskTotal (computeStatistics ct now s) = diskTotal s"
  "diskFree (computeStatistics ct now s) = diskFree s"
  "diskUsed (computeStatistics ct now s) = diskUsed s"
  "cpuFreq (computeStatistics ct now s) = cpuFreq s"
  "fetchError (computeStatistics ct now s) = fetchError s"
  "cpuCoreUsages (computeStatistics ct now s) = computeCoreUsages ct (cpuFreq s)"
  "cpuUsage (computeStatistics ct now s) = averageUsage (computeCoreUsages ct (cpuFreq s))"
  by (simp_all add: computeStatistics_def Let_def)

lemma computeStatistics_bootstrap:
  "lastReceivedBytes s = Fin 0 \<or> lastSentBytes s = Fin 0
     \<Longrightarrow> receivedSpeed (computeStatistics ct now s) = receivedSpeed s
         \<and> sentSpeed (computeStatistics ct now s) = sentSpeed s"
  using computeNetworkSpeed_bootstrap[of "s\<lparr>cpuCoreUsages := computeCoreUsages ct (cpuFreq s),
      cpuUsage := averageUsage (computeCoreUsages ct (cpuFreq s))\<rparr>" now]
  by (simp add: computeStatistics_def Let_def)

lemma frequency_computeCoreUsages:
  "cu \<in> set (computeCoreUsages ct f) \<Longrightarrow> frequency cu = f"
  by (auto simp add: computeCoreUsages_def set_sortByIndex toCoreUsage_def)


section \<open>Results of a fetch cycle\<close>

lemma fetchMetrics_Text_ok:
  assumes "currentDevice s = Some dev"
    and "processLines (textLines m) ([], s\<lparr>isLoading := True, fetchError := None\<rparr>) = Inr (ct, s1)"
  shows "fetchMetrics (Text m) now s = Inr ((computeStatistics ct now s1)\<lparr>isLoading := False\<rparr>)"
  using assms by (simp add: fetchMetrics_def tryBlock_def Let_def)

lemma fetchMetrics_Text_thrown:
  assumes "currentDevice s = Some dev"
    and "processLines (textLines m) ([], s\<lparr>isLoading := True, fetchError := None\<rparr>) = Inl (e, s1)"
  shows "fetchMetrics (Text m) now s = Inr ((catchBlock dev e s1)\<lparr>isLoading := False\<rparr>)"
  using assms by (simp add: fetchMetrics_def tryBlock_def Let_def)

lemma fetchMetrics_Rejected:
  assumes "currentDevice s = Some dev"
  shows "fetchMetrics (Rejected e) now s =
           Inr ((catchBlock dev e (s\<lparr>isLoading := True, fetchError := None\<rparr>))\<lparr>isLoading := False\<rparr>)"
  using assms by (simp add: fetchMetrics_def tryBlock_def Let_def)

lemma fetchMetrics_NonString:
  assumes "currentDevice s = Some dev"
  shows "fetchMetrics NonString now s = Inr (s\<lparr>isLoading := False, fetchError := Some FormatError\<rparr>)"
  using assms by (simp add: fetchMetrics_def tryBlock_def Let_def)

lemma fetchMetrics_never_rejects: "\<exists>s'. fetchMetrics r now s = Inr s'"
  by (simp add: fetchMetrics_def Let_def split: option.splits)


lemma fetchMetrics_stateAfter: "fetchMetrics r now s = Inr (stateAfter (fetchMetrics r now s))"
  using fetchMetrics_never_rejects[of r now s] by auto

lemma processLines_fetchError:
  "processLines ls (ct, s) = Inr (ct', s') \<Longrightarrow> fetchError s' = fetchError s"
  using processLines_unchanged[where g = fetchError, OF processLine_fields(8)] .


text \<open>
  What holds of the first sample for every body: both network speeds stay 0, and when the
  cycle completes (no error is set) the memory and disk totals and free amounts are
  the values of the last matching lines of that body, in GB.
\<close>

lemma first_sample_speeds_and_gauges:
  "let s' = stateAfter (fetchMetrics (Text m) now (initialState (Some dev) t0))
   in receivedSpeed s' = Fin 0 \<and> sentSpeed s' = Fin 0
      \<and> (fetchError s' = None \<longrightarrow>
           memoryTotal s' = gaugeGB ''windows_os_visible_memory_bytes'' (textLines m)
         \<and> memoryFree s' = gaugeGB ''windows_memory_available_bytes'' (textLines m)
         \<and> diskTotal s' = gaugeGB diskSizeName (textLines m)
         \<and> diskFree s' = gaugeGB diskFreeName (textLines m))"
proof -
  let ?init = "initialState (Some dev) t0"
  let ?start = "?init\<lparr>isLoading := True, fetchError := None\<rparr>"
  have dev: "currentDevice ?init = Some dev" by (simp add: initialState_def)
  have init: "memoryTotal ?start = Fin 0" "memoryFree ?start = Fin 0" "memoryUsed ?start = Fin 0"
    "diskTotal ?start = Fin 0" "diskFree ?start = Fin 0" "diskUsed ?start = Fin 0"
    "receivedSpeed ?start = Fin 0" "sentSpeed ?start = Fin 0"
    "lastReceivedBytes ?start = Fin 0" "fetchError ?start = None"
    by (simp_all add: initialState_def)
  show ?thesis
  proof (cases "processLines (textLines m) ([], ?start)")
    case (Inl es)
    obtain e s1 where es: "es = (e, s1)" by (cases es)
    have fm: "fetchMetrics (Text m) now ?init = Inr ((catchBlock dev e s1)\<lparr>isLoading := False\<rparr>)"
      using fetchMetrics_Text_thrown[OF dev] Inl es by simp
    show ?thesis by (simp add: Let_def fm catchBlock_def)
  next
    case (Inr cs)
    obtain ct s1 where cs: "cs = (ct, s1)" by (cases cs)
    have pl: "processLines (textLines m) ([], ?start) = Inr (ct, s1)" using Inr cs by simp
    have fm: "fetchMetrics (Text m) now ?init = Inr ((computeStatistics ct now s1)\<lparr>isLoading := False\<rparr>)"
      using fetchMetrics_Text_ok[OF dev pl] .
    have mt: "memoryTotal s1 = gaugeGB ''windows_os_visible_memory_bytes'' (textLines m)"
      using processLines_last_value[where g = memoryTotal
          and P = "\<lambda>l. includes_str l ''windows_os_visible_memory_bytes''"
          and v = "\<lambda>l. jdiv (lineValue l) GB", OF processLine_fields(1) pl]
      unfolding gaugeGB_def lastLineWith_def init(1) .
    have mf: "memoryFree s1 = gaugeGB ''windows_memory_available_bytes'' (textLines m)"
      using processLines_last_value[where g = memoryFree
          and P = "\<lambda>l. includes_str l ''windows_memory_available_bytes''"
          and v = "\<lambda>l. jdiv (lineValue l) GB", OF processLine_fields(2) pl]
      unfolding gaugeGB_def lastLineWith_def init(2) .
    have dt: "diskTotal s1 = gaugeGB diskSizeName (textLines m)"
      using processLines_last_value[where g = diskTotal
          and P = "\<lambda>l. includes_str l diskSizeName"
          and v = "\<lambda>l. jdiv (lineValue l) GB", OF processLine_fields(4) pl]
      unfolding gaugeGB_def lastLineWith_def init(4) .
    have df: "diskFree s1 = gaugeGB diskFreeName (textLines m)"
      using processLines_last_value[where g = diskFree
          and P = "\<lambda>l. includes_str l diskFreeName"
          and v = "\<lambda>l. jdiv (lineValue l) GB", OF processLine_fields(5) pl]
      unfolding gaugeGB_def lastLineWith_def init(5) .
    have lr: "lastReceivedBytes s1 = Fin 0"
      using processLines_unchanged[where g = lastReceivedBytes, OF processLine_fields(11) pl] init(9)
      by simp
    have rs: "receivedSpeed s1 = Fin 0"
      using processLines_unchanged[where g = receivedSpeed, OF processLine_fields(9) pl] init(7)
      by simp
    have ss: "sentSpeed s1 = Fin 0"
      using processLines_unchanged[where g = sentSpeed, OF processLine_fields(10) pl] init(8)
      by simp
    have sp: "receivedSpeed (computeStatistics ct now s1) = Fin 0
              \<and> sentSpeed (computeStatistics ct now s1) = Fin 0"
      using computeStatistics_bootstrap[OF disjI1[OF lr], of ct now] rs ss by simp
    show ?thesis using sp by (simp add: Let_def fm mt mf dt df)
  qed
qed


text \<open>
  C4. The used amounts are not computed from the first body alone. \<open>memoryUsed\<close> is
  assigned where the available-memory line is read, from the \<open>memoryTotal\<close> of that
  moment, and \<open>diskUsed\<close> likewise at the free-space line. In a body that lists its
  metrics by name the free line comes before the total line, so the first cycle takes
  the total 0 of the initial state: the used amounts are 0 while the totals and free
  amounts of the same snapshot are 16 and 4 GB of memory, 100 and 50 GB of disk. The
  second cycle on the same body gives 12 and 50.
\<close>

theorem first_sample_used_stale:
  "map (\<lambda>g. g (stateAfter (fetchMetrics (Text sortedGaugeBlob) 2000
                    (initialState (Some exampleDevice) 0))))
     [receivedSpeed, sentSpeed, memoryTotal, memoryFree, memoryUsed,
      diskTotal, diskFree, diskUsed]
     = [Fin 0, Fin 0, Fin 16, Fin 4, Fin 0, Fin 100, Fin 50, Fin 0]
   \<and> Math_max (Fin 0) (jsub (Fin 16) (Fin 4)) = Fin 12
   \<and> Math_max (Fin 0) (jsub (Fin 100) (Fin 50)) = Fin 50
   \<and> map (\<lambda>g. g (stateAfter (fetchMetrics (Text sortedGaugeBlob) 4000
                    (stateAfter (fetchMetrics (Text sortedGaugeBlob) 2000
                       (initialState (Some exampleDevice) 0))))))
        [memoryUsed, diskUsed] = [Fin 12, Fin 50]"
  by code_simp

text \<open>With each total line before its free line the first cycle has the used amounts.\<close>

lemma first_sample_total_before_free:
  "map (\<lambda>g. g (stateAfter (fetchMetrics (Text gaugeBlob) 2000
                    (initialState (Some exampleDevice) 0))))
     [receivedSpeed, sentSpeed, memoryTotal, memoryFree, memoryUsed,
      diskTotal, diskFree, diskUsed]
     = [Fin 0, Fin 0, Fin 16, Fin 4, Fin 12, Fin 100, Fin 50, Fin 50]"
  by code_simp

text \<open>
  C10. After a cycle that completes, every element of the exposed per-core sequence
  carries the one global frequency value; that value is the one of the last frequency
  line of the body whose value is a number, divided by 1000, or the value the variable
  had before when the body has no such line.
\<close>

theorem frequency_uniform:
  assumes "currentDevice s = Some dev"
    and "fetchMetrics (Text m) now s = Inr s'"
    and "fetchError s' = None"
  shows "(\<forall>cu \<in> set (cpuCoreUsages s'). frequency cu = cpuFreq s')
         \<and> cpuFreq s' = (case lastFrequencyLine (textLines m) of
                           None \<Rightarrow> cpuFreq s
                         | Some l \<Rightarrow> jdiv (lineValue l) (Fin 1000))"
proof -
  let ?start = "s\<lparr>isLoading := True, fetchError := None\<rparr>"
  have st: "cpuFreq ?start = cpuFreq s" by simp
  show ?thesis
  proof (cases "processLines (textLines m) ([], ?start)")
    case (Inl es)
    obtain e s1 where es: "es = (e, s1)" by (cases es)
    have "fetchMetrics (Text m) now s = Inr ((catchBlock dev e s1)\<lparr>isLoading := False\<rparr>)"
      using fetchMetrics_Text_thrown[OF assms(1)] Inl es by simp
    with assms(2) have "s' = (catchBlock dev e s1)\<lparr>isLoading := False\<rparr>" by simp
    then have "fetchError s' \<noteq> None" by (simp add: catchBlock_def)
    with assms(3) show ?thesis by simp
  next
    case (Inr cs)
    obtain ct s1 where cs: "cs = (ct, s1)" by (cases cs)
    have pl: "processLines (textLines m) ([], ?start) = Inr (ct, s1)" using Inr cs by simp
    have "fetchMetrics (Text m) now s = Inr ((computeStatistics ct now s1)\<lparr>isLoading := False\<rparr>)"
      using fetchMetrics_Text_ok[OF assms(1) pl] .
    with assms(2) have s': "s' = (computeStatistics ct now s1)\<lparr>isLoading := False\<rparr>" by simp
    have f1: "cpuFreq s1 = (case lastFrequencyLine (textLines m) of
                              None \<Rightarrow> cpuFreq s
                            | Some l \<Rightarrow> jdiv (lineValue l) (Fin 1000))"
      using processLines_last_value[where g = cpuFreq
          and P = "\<lambda>l. includes_str l ''windows_cpu_core_frequency_mhz'' \<and> \<not> isNaN (lineValue l)"
          and v = "\<lambda>l. jdiv (lineValue l) (Fin 1000)", OF processLine_fields(7) pl]
      unfolding lastFrequencyLine_def st .
    have f2: "cpuFreq s' = cpuFreq s1" by (simp add: s')
    have f3: "cpuCoreUsages s' = computeCoreUsages ct (cpuFreq s1)" by (simp add: s')
    have "\<forall>cu \<in> set (cpuCoreUsages s'). frequency cu = cpuFreq s'"
      unfolding f2 f3 by (blast intro: frequency_computeCoreUsages)
    with f1 f2 show ?thesis by simp
  qed
qed


theorem frequency_uniform_witness:
  "map frequency (cpuCoreUsages (stateAfter (fetchMetrics (Text frequencyBlob) 2000
       (initialState (Some exampleDevice) 0)))) = [Fin (16 / 5), Fin (16 / 5)]
   \<and> cpuFreq (stateAfter (fetchMetrics (Text frequencyBlob) 2000
       (initialState (Some exampleDevice) 0))) = Fin (16 / 5)"
proof -
  let ?s' = "stateAfter (fetchMetrics (Text frequencyBlob) 2000
               (initialState (Some exampleDevice) 0))"
  have a: "currentDevice (initialState (Some exampleDevice) 0) = Some exampleDevice"
    by (simp add: initialState_def)
  have c: "fetchError ?s' = None" by code_simp
  have d: "map frequency (cpuCoreUsages ?s') = [Fin (16 / 5), Fin (16 / 5)]" by code_simp
  have e: "lastFrequencyLine (textLines frequencyBlob)
             = Some (''windows_cpu_core_frequency_mhz{core='' @ [dq] @ ''0,0'' @ [dq] @ ''} 3200'')"
    by code_simp
  have f: "jdiv (lineValue (''windows_cpu_core_frequency_mhz{core='' @ [dq] @ ''0,0'' @ [dq]
             @ ''} 3200'')) (Fin 1000) = Fin (16 / 5)"
    by code_simp
  from frequency_uniform[OF a fetchMetrics_stateAfter c] d e f show ?thesis by simp
qed

text \<open>
  C3 as stated fails. From a state with good values, a request that times out leaves
  the free memory and the free disk space as they were, and a body that is not a
  string sets the error and resets nothing.
\<close>

theorem failure_reset_counterexample:
  "fetchError (stateAfter (fetchMetrics (Rejected timeoutError) 4000 lastGoodState))
     = Some (ConnectTimeout ''192.168.1.10'')
   \<and> memoryFree (stateAfter (fetchMetrics (Rejected timeoutError) 4000 lastGoodState)) = Fin 4
   \<and> diskFree (stateAfter (fetchMetrics (Rejected timeoutError) 4000 lastGoodState)) = Fin 50
   \<and> fetchError (stateAfter (fetchMetrics NonString 4000 lastGoodState)) = Some FormatError
   \<and> receivedSpeed (stateAfter (fetchMetrics NonString 4000 lastGoodState)) = Fin 95
   \<and> memoryTotal (stateAfter (fetchMetrics NonString 4000 lastGoodState)) = Fin 16"
  by code_simp

text \<open>
  C3, amended. When the request is rejected (whatever the error), the two network
  speeds and the total and used amounts of memory and disk are reset to 0, the error
  is set to the message of the error's class, and every CPU field keeps its value. A
  body that is not a string only sets the error. When an exception ends the parsing of
  a text body, the same six fields are reset and the error is set.
\<close>

theorem failure_policy:
  assumes "currentDevice s = Some dev"
  shows "(let s' = stateAfter (fetchMetrics (Rejected e) now s)
          in receivedSpeed s' = Fin 0 \<and> sentSpeed s' = Fin 0
             \<and> memoryTotal s' = Fin 0 \<and> memoryUsed s' = Fin 0
             \<and> diskTotal s' = Fin 0 \<and> diskUsed s' = Fin 0
             \<and> fetchError s' = Some (classify dev e)
             \<and> cpuUsage s' = cpuUsage s \<and> cpuCores s' = cpuCores s
             \<and> cpuFreq s' = cpuFreq s \<and> cpuCoreUsages s' = cpuCoreUsages s)
       \<and> stateAfter (fetchMetrics NonString now s)
           = s\<lparr>isLoading := False, fetchError := Some FormatError\<rparr>
       \<and> (let s' = stateAfter (fetchMetrics (Text m) now s)
          in fetchError s' \<noteq> None \<longrightarrow>
               receivedSpeed s' = Fin 0 \<and> sentSpeed s' = Fin 0
             \<and> memoryTotal s' = Fin 0 \<and> memoryUsed s' = Fin 0
             \<and> diskTotal s' = Fin 0 \<and> diskUsed s' = Fin 0)"
proof -
  have a: "let s' = stateAfter (fetchMetrics (Rejected e) now s)
          in receivedSpeed s' = Fin 0 \<and> sentSpeed s' = Fin 0
             \<and> memoryTotal s' = Fin 0 \<and> memoryUsed s' = Fin 0
             \<and> diskTotal s' = Fin 0 \<and> diskUsed s' = Fin 0
             \<and> fetchError s' = Some (classify dev e)
             \<and> cpuUsage s' = cpuUsage s \<and> cpuCores s' = cpuCores s
             \<and> cpuFreq s' = cpuFreq s \<and> cpuCoreUsages s' = cpuCoreUsages s"
    by (simp add: fetchMetrics_Rejected[OF assms] catchBlock_def Let_def)
  have b: "stateAfter (fetchMetrics NonString now s)
             = s\<lparr>isLoading := False, fetchError := Some FormatError\<rparr>"
    by (simp add: fetchMetrics_NonString[OF assms])
  have c: "let s' = stateAfter (fetchMetrics (Text m) now s)
          in fetchError s' \<noteq> None \<longrightarrow>
               receivedSpeed s' = Fin 0 \<and> sentSpeed s' = Fin 0
             \<and> memoryTotal s' = Fin 0 \<and> memoryUsed s' = Fin 0
             \<and> diskTotal s' = Fin 0 \<and> diskUsed s' = Fin 0"
  proof (cases "processLines (textLines m) ([], s\<lparr>isLoading := True, fetchError := None\<rparr>)")
    case (Inl es)
    obtain e' s1 where es: "es = (e', s1)" by (cases es)
    have "fetchMetrics (Text m) now s = Inr ((catchBlock dev e' s1)\<lparr>isLoading := False\<rparr>)"
      using fetchMetrics_Text_thrown[OF assms] Inl es by simp
    then show ?thesis by (simp add: catchBlock_def Let_def)
  next
    case (Inr cs)
    obtain ct s1 where cs: "cs = (ct, s1)" by (cases cs)
    have pl: "processLines (textLines m) ([], s\<lparr>isLoading := True, fetchError := None\<rparr>)
                = Inr (ct, s1)"
      using Inr cs by simp
    have "fetchMetrics (Text m) now s
            = Inr ((computeStatistics ct now s1)\<lparr>isLoading := False\<rparr>)"
      using fetchMetrics_Text_ok[OF assms pl] .
    then show ?thesis using processLines_fetchError[OF pl] by (simp add: Let_def)
  qed
  from a b c show ?thesis by blast
qed

theorem failure_policy_witness:
  "map (\<lambda>g. g (stateAfter (fetchMetrics (Rejected timeoutError) 4000 lastGoodState)))
     [receivedSpeed, sentSpeed, memoryTotal, memoryUsed, diskTotal, diskUsed, cpuUsage, cpuFreq]
     = [Fin 0, Fin 0, Fin 0, Fin 0, Fin 0, Fin 0, Fin 25, Fin (16 / 5)]
   \<and> fetchError (stateAfter (fetchMetrics
        (Text ''windows_cpu_logical_processor 4294967296'') 4000 lastGoodState)) \<noteq> None
   \<and> memoryTotal (stateAfter (fetchMetrics
        (Text ''windows_cpu_logical_processor 4294967296'') 4000 lastGoodState)) = Fin 0"
proof -
  have dev: "currentDevice lastGoodState = Some exampleDevice" by (simp add: lastGoodState_def)
  have cpu: "cpuUsage lastGoodState = Fin 25" "cpuFreq lastGoodState = Fin (16 / 5)"
    by (simp_all add: lastGoodState_def)
  have err: "fetchError (stateAfter (fetchMetrics
        (Text ''windows_cpu_logical_processor 4294967296'') 4000 lastGoodState)) \<noteq> None"
    by code_simp
  from failure_policy[OF dev, of timeoutError 4000
      "''windows_cpu_logical_processor 4294967296''"]
    cpu err
  show ?thesis by (simp add: Let_def)
qed

section \<open>The retry wrapper never retries\<close>

lemma tryFetchMetrics_no_retry: "RetryWaiting d \<notin> set (fst (tryFetchMetrics outcomes s))"
proof (cases outcomes)
  case Nil
  then show ?thesis by simp
next
  case (Cons o1 rest)
  obtain s1 where "fetchMetrics (fst o1) (snd o1) s = Inr s1"
    using fetchMetrics_never_rejects by blast
  with Cons show ?thesis by simp
qed

text \<open>
  C2. \<open>fetchMetrics\<close> handles every failure of the request itself and returns normally,
  so the handler of \<open>tryFetchMetrics\<close> that counts and schedules retries is never
  entered. With four failing outcomes available, one fetch is made, no retry timer is
  set, the other three outcomes stay unused, \<open>retryCount\<close> is 0 and the error is set
  at once: the next attempt is the one of the polling interval.
\<close>

theorem retry_never_happens:
  "(case fetchMetricsWithRetry fourFailures (initialState (Some exampleDevice) 0) of
      (events, unused, s') \<Rightarrow>
        events = [Fetching] \<and> length unused = 3 \<and> retryCount s' = 0
        \<and> fetchError s' = Some (ConnectTimeout ''192.168.1.10''))"
  by code_simp

section \<open>Values that fail to parse\<close>

lemma isRadixDigit_10: "isRadixDigit 10 c = isDigit c"
  by (auto simp add: isRadixDigit_def digitVal_def isDigit_def Let_def split: option.splits if_splits)


lemma scanDecimal_None: "scanDecimal u = None \<Longrightarrow> takeWhile isDigit u = []"
  by (auto simp add: scanDecimal_def Let_def split: prod.splits list.splits if_splits option.splits)

lemma parseFloat_NaN_parseInt:
  assumes "parseFloat f = NaN"
  shows "parseInt f = NaN"
proof -
  obtain neg u where su: "signOf (dropWhile isWhite f) = (neg, u)" by (cases "signOf (dropWhile isWhite f)")
  from assms su have "scanDecimal u = None"
    by (auto simp add: parseFloat_def split: if_splits option.splits)
  then have tw: "takeWhile isDigit u = []" by (rule scanDecimal_None)
  have nox: "\<not> prefix ''0x'' u \<and> \<not> prefix ''0X'' u"
  proof (cases u)
    case Nil
    then show ?thesis by simp
  next
    case (Cons c r)
    with tw have "\<not> isDigit c" by (auto split: if_splits)
    then have "c \<noteq> CHR ''0''" by (auto simp add: isDigit_def)
    with Cons show ?thesis by simp
  qed
  have "takeWhile (isRadixDigit 10) u = []" using tw by (simp add: isRadixDigit_10[abs_def])
  with su nox show ?thesis by (simp add: parseInt_def)
qed



lemma lineValue_NaN_lineIntValue: "isNaN (lineValue l) \<Longrightarrow> lineIntValue l = NaN"
  by (cases "lineValue l") (simp_all add: lineValue_def lineIntValue_def parseFloat_NaN_parseInt)

lemma processLine_NaN_continues:
  assumes "isNaN (lineValue l)"
  shows "\<exists>cs'. processLine l cs = Inr cs'"
  using lineValue_NaN_lineIntValue[OF assms]
  by (simp add: processLine_def onLogicalProcessor_def Let_def)

text \<open>
  What the code does right on these lines: an empty last field (a line that ends with
  a space) is read as 0, a value that is NaN never ends the pass, and the frequency
  block, the only one with a test for NaN, keeps the old frequency.
\<close>

lemma lineValue_empty_field: "lastField l = [] \<Longrightarrow> lineValue l = Fin 0"
proof -
  have "parseFloat ''0'' = Fin 0" by code_simp
  then show "lastField l = [] \<Longrightarrow> lineValue l = Fin 0" by (simp add: lineValue_def)
qed

lemma frequency_guard_keeps_value:
  "isNaN (lineValue l) \<Longrightarrow> cpuFreq (onFrequency l s) = cpuFreq s"
  by simp

text \<open>
  C9. On a recognized line whose last field is \<open>abc\<close> the value is NaN, not 0, and the
  blocks for memory, disk, network and CPU time store it untested. Three such lines
  read after a good cycle: the pass completes with no error, the frequency keeps its
  value \<open>16 / 5\<close> behind its NaN test, and the memory total, the received counter and
  the receive speed become NaN.
\<close>

theorem parse_failure_stores_NaN:
  "lastField ''windows_os_visible_memory_bytes abc'' = ''abc''
   \<and> parseFloat ''abc'' = NaN
   \<and> lineValue ''windows_os_visible_memory_bytes abc'' = NaN
   \<and> fetchError (stateAfter (fetchMetrics (Text unparsableBlob) 4000 lastGoodState)) = None
   \<and> map (\<lambda>g. g (stateAfter (fetchMetrics (Text unparsableBlob) 4000 lastGoodState)))
        [cpuFreq, memoryTotal, currentReceivedBytes, receivedSpeed]
       = [Fin (16 / 5), NaN, NaN, NaN]"
  by code_simp

section \<open>Core labels and the order of the exposed sequence\<close>

lemma split_str_nonempty: "split_str sep s \<noteq> []"
  by (induction s) (auto split: list.splits)

lemma split_str_no_sep: "sep \<notin> set s \<Longrightarrow> split_str sep s = [s]"
  by (induction s) auto


















text \<open>
  The counter blocks never come to a label with its comma. A piece of a split holds no
  separator and only characters of the text that was split; so the core they take
  holds no comma, \<open>thread\<close> is missing, and their index is NaN whatever the line: for
  \<open>core="1,0"\<close> the core is \<open>1\<close> and the index is NaN, where the expression on the
  whole label would give 2.
\<close>

lemma split_str_piece_no_sep: "x \<in> set (split_str sep s) \<Longrightarrow> sep \<notin> set x"
proof (induction s arbitrary: x)
  case Nil
  then show ?case by simp
next
  case (Cons c cs)
  obtain q qs where q: "split_str sep cs = q # qs"
    using split_str_nonempty[of sep cs] by (cases "split_str sep cs") auto
  have "q \<in> set (split_str sep cs)" using q by simp
  then have qn: "sep \<notin> set q" by (rule Cons.IH)
  show ?case
  proof (cases "c = sep")
    case True
    then show ?thesis using Cons by auto
  next
    case False
    with Cons.prems q have "x = c # q \<or> x \<in> set qs" by simp
    then show ?thesis
    proof
      assume "x = c # q"
      then show ?thesis using qn False by auto
    next
      assume "x \<in> set qs"
      then have "x \<in> set (split_str sep cs)" using q by simp
      then show ?thesis by (rule Cons.IH)
    qed
  qed
qed

lemma split_str_piece_subset: "x \<in> set (split_str sep s) \<Longrightarrow> set x \<subseteq> set s"
proof (induction s arbitrary: x)
  case Nil
  then show ?case by simp
next
  case (Cons c cs)
  obtain q qs where q: "split_str sep cs = q # qs"
    using split_str_nonempty[of sep cs] by (cases "split_str sep cs") auto
  have "q \<in> set (split_str sep cs)" using q by simp
  then have qn: "set q \<subseteq> set cs" by (rule Cons.IH)
  show ?case
  proof (cases "c = sep")
    case True
    then show ?thesis using Cons by auto
  next
    case False
    with Cons.prems q have "x = c # q \<or> x \<in> set qs" by simp
    then show ?thesis
    proof
      assume "x = c # q"
      then show ?thesis using qn by auto
    next
      assume "x \<in> set qs"
      then have "x \<in> set (split_str sep cs)" using q by simp
      then have "set x \<subseteq> set cs" by (rule Cons.IH)
      then show ?thesis by auto
    qed
  qed
qed

lemma counterBlockCore_no_comma:
  assumes "counterBlockCore line = Some c"
  shows "CHR '','' \<notin> set c"
proof -
  from assms obtain labels p where p: "find (\<lambda>p. includes_str p ''core='')
        (split_str CHR '','' labels) = Some p"
    and c: "c \<in> set (split_str dq p)"
    by (auto simp add: counterBlockCore_def split: list.splits option.splits)
  from p have "p \<in> set (split_str CHR '','' labels)" by (auto simp add: find_Some_iff)
  then have "CHR '','' \<notin> set p" by (rule split_str_piece_no_sep)
  moreover have "set c \<subseteq> set p" using c by (rule split_str_piece_subset)
  ultimately show ?thesis by auto
qed

lemma counterBlockIndex_never_a_number:
  "counterBlockIndex line = None \<or> counterBlockIndex line = Some NaN"
proof (cases "counterBlockCore line")
  case None
  then show ?thesis by (simp add: counterBlockIndex_def)
next
  case (Some c)
  then have "split_str CHR '','' c = [c]"
    using counterBlockCore_no_comma split_str_no_sep by blast
  then have "pairIndex c = NaN" by (simp add: pairIndex_def)
  with Some show ?thesis by (simp add: counterBlockIndex_def)
qed

lemma counterBlock_cuts_the_label:
  "counterBlockCore (mperfLine ''1,0'' ''5'') = Some ''1''
   \<and> counterBlockIndex (mperfLine ''1,0'' ''5'') = Some NaN
   \<and> pairIndex ''1,0'' = Fin 2"
  by code_simp



end
